theory Spec2Isabelle
  imports Complex_Main
begin

section \<open>Numbers and errors of the Python program\<close>

text \<open>
  The program computes with Python floats. Finite floats are idealised as real numbers
  (no rounding, no overflow); the special values that \<open>np.log10\<close> and \<open>np.sqrt\<close>
  produce outside their domain are kept explicit in \<open>npfloat\<close>, and the complex value that
  Python's \<open>**\<close> returns for a negative base is kept explicit in \<open>pynum\<close>.
  Every \<open>raise\<close> of the source, and every exception the interpreter raises in the
  functions modelled here, is a value of \<open>error\<close>.
\<close>

datatype error = ValueError string | ZeroDivisionError | TypeError

datatype npfloat = Fin real | PInf | NInf | NaN

datatype pynum = PyFloat real | PyComplex complex

section \<open>utils/unit\_converters.py\<close>

definition BAR_TO_PSI :: real where
  "BAR_TO_PSI = 14.5038"

definition M3HR_TO_GPM :: real where
  "M3HR_TO_GPM = 4.40287"

definition NM3HR_TO_SCFH :: real where
  "NM3HR_TO_SCFH = 37.324"

text \<open>Unit names outside ASCII are the UTF-8 bytes of the source's literals.\<close>

definition deg_F :: string where
  "deg_F = [CHR 0xC2, CHR 0xB0, CHR ''F'']"

definition deg_C :: string where
  "deg_C = [CHR 0xC2, CHR 0xB0, CHR ''C'']"

definition m3_per_hr :: string where
  "m3_per_hr = [CHR ''m'', CHR 0xC2, CHR 0xB3] @ ''/hr''"

definition kg_per_m3 :: string where
  "kg_per_m3 = ''kg/m'' @ [CHR 0xC2, CHR 0xB3]"

definition Nm3_per_hr :: string where
  "Nm3_per_hr = [CHR ''N'', CHR ''m'', CHR 0xC2, CHR 0xB3] @ ''/hr''"

definition convert_pressure :: "real \<Rightarrow> string \<Rightarrow> string \<Rightarrow> real" where
  "convert_pressure v from_system to_unit =
     (if from_system = ''Metric'' \<and> to_unit = ''psi'' then v * BAR_TO_PSI
      else if from_system = ''Imperial'' \<and> to_unit = ''bar'' then v / BAR_TO_PSI
      else v)"

definition convert_flow_liquid :: "real \<Rightarrow> string \<Rightarrow> string \<Rightarrow> real" where
  "convert_flow_liquid v from_system to_unit =
     (if from_system = ''Metric'' \<and> to_unit = ''gpm'' then v * M3HR_TO_GPM
      else if from_system = ''Imperial'' \<and> to_unit = m3_per_hr then v / M3HR_TO_GPM
      else v)"

definition convert_density :: "real \<Rightarrow> string \<Rightarrow> string \<Rightarrow> real" where
  "convert_density v from_system to_unit =
     (if from_system = ''Metric'' \<and> to_unit = ''SG'' then v / 1000
      else if from_system = ''Imperial'' \<and> to_unit = kg_per_m3 then v * 1000
      else v)"

definition convert_temperature :: "real \<Rightarrow> string \<Rightarrow> string \<Rightarrow> real" where
  "convert_temperature v from_system to_unit =
     (if from_system = ''Metric'' \<and> to_unit = deg_F then (v * 9 / 5) + 32
      else if from_system = ''Imperial'' \<and> to_unit = deg_C then (v - 32) * 5 / 9
      else v)"

definition convert_flow_gas :: "real \<Rightarrow> string \<Rightarrow> string \<Rightarrow> real" where
  "convert_flow_gas v from_system to_unit =
     (if from_system = ''Metric'' \<and> to_unit = ''scfh'' then v * NM3HR_TO_SCFH
      else if from_system = ''Imperial'' \<and> to_unit = Nm3_per_hr then v / NM3HR_TO_SCFH
      else v)"

section \<open>utils/helpers.py: the unit names of each system\<close>

record unit_names =
  pressure :: string
  temperature :: string
  flow_liquid :: string
  flow_gas :: string
  density :: string
  viscosity :: string
  force :: string
  torque :: string

definition UNITS :: "string \<rightharpoonup> unit_names" where
  "UNITS = [
     ''Metric'' \<mapsto> \<lparr>pressure = ''bar'', temperature = deg_C, flow_liquid = m3_per_hr,
        flow_gas = Nm3_per_hr, density = kg_per_m3, viscosity = ''cP'', force = ''N'',
        torque = ''Nm''\<rparr>,
     ''Imperial'' \<mapsto> \<lparr>pressure = ''psi'', temperature = deg_F, flow_liquid = ''gpm'',
        flow_gas = ''scfh'', density = ''SG'', viscosity = ''cP'', force = ''lbf'',
        torque = ''ft-lbf''\<rparr>]"

definition get_units :: "string \<Rightarrow> unit_names" where
  "get_units unit_system =
     (case UNITS unit_system of
        Some u \<Rightarrow> u
      | None \<Rightarrow> the (UNITS ''Metric''))"

section \<open>data/valve\_data.py\<close>

record valve_entry =
  FL :: real
  Kc :: real
  Xt :: real
  Rangeability :: int
  Style :: string

text \<open>
  The nested dictionary \<open>VALVE_COEFFICIENTS\<close>: valve type, then valve style, in the
  source's order (the order matters for \<open>get_valve_styles\<close>).
\<close>

definition VALVE_COEFFICIENTS :: "(string \<times> (string \<times> valve_entry) list) list" where
  "VALVE_COEFFICIENTS = [
     (''Globe'', [
        (''Standard, Cage-Guided'',
           \<lparr>FL = 0.90, Kc = 0.70, Xt = 0.75, Rangeability = 50,
            Style = ''General purpose, excellent throttling, moderate capacity.''\<rparr>),
        (''Low-Noise, Multi-Path'',
           \<lparr>FL = 0.95, Kc = 0.80, Xt = 0.80, Rangeability = 40,
            Style = ''Designed to attenuate aerodynamic noise in gas service.''\<rparr>),
        (''Anti-Cavitation, Multi-Stage'',
           \<lparr>FL = 0.98, Kc = 0.85, Xt = 0.85, Rangeability = 30,
            Style = ''Reduces pressure in multiple steps to prevent cavitation damage.''\<rparr>),
        (''Port-Guided, Quick Opening'',
           \<lparr>FL = 0.85, Kc = 0.65, Xt = 0.70, Rangeability = 20,
            Style = ''Best for on/off service, poor throttling.''\<rparr>)]),
     (''Ball (Segmented)'', [
        (''Standard V-Notch'',
           \<lparr>FL = 0.80, Kc = 0.60, Xt = 0.40, Rangeability = 100,
            Style = ''Good rangeability and throttling, suitable for slurries.''\<rparr>),
        (''High-Performance'',
           \<lparr>FL = 0.75, Kc = 0.55, Xt = 0.35, Rangeability = 80,
            Style = ''Higher capacity, but less pressure recovery.''\<rparr>)]),
     (''Butterfly'', [
        (''Standard, Centric Disc'',
           \<lparr>FL = 0.70, Kc = 0.50, Xt = 0.30, Rangeability = 20,
            Style = ''Low cost, high capacity, limited throttling range (typically 60-degree opening).''\<rparr>),
        (''High-Performance, Double Offset'',
           \<lparr>FL = 0.85, Kc = 0.65, Xt = 0.55, Rangeability = 50,
            Style = ''Better shutoff and control than standard butterfly valves.''\<rparr>)])]"

definition VALVE_RATED_CVS :: "(int \<times> int) list" where
  "VALVE_RATED_CVS = [
     (1, 12), (2, 50), (3, 110), (4, 170), (6, 400), (8, 700), (10, 1080), (12, 1750),
     (14, 2400), (16, 3200), (18, 4100), (20, 5000), (24, 7200), (30, 11000), (36, 16000),
     (42, 22000), (48, 28000), (54, 36000), (60, 45000), (66, 54000), (72, 65000)]"

datatype key_error = KeyError

text \<open>Subscripting a dictionary, \<open>d[k]\<close>: raises \<open>KeyError\<close> on a missing key.\<close>

definition subscript :: "('k \<times> 'v) list \<Rightarrow> 'k \<Rightarrow> key_error + 'v" where
  "subscript d k = (case map_of d k of None \<Rightarrow> Inl KeyError | Some v \<Rightarrow> Inr v)"

definition default_entry :: valve_entry where
  "default_entry = \<lparr>FL = 0.9, Kc = 0.7, Xt = 0.75, Rangeability = 30,
     Style = ''Default general purpose values.''\<rparr>"

text \<open>\<open>get_valve_data\<close>: the \<open>try\<close> body is the double subscript, the handler the default.\<close>

definition get_valve_data :: "string \<Rightarrow> string \<Rightarrow> valve_entry" where
  "get_valve_data valve_type valve_style =
     (case subscript VALVE_COEFFICIENTS valve_type of
        Inl KeyError \<Rightarrow> default_entry
      | Inr styles \<Rightarrow>
          (case subscript styles valve_style of
             Inl KeyError \<Rightarrow> default_entry
           | Inr e \<Rightarrow> e))"

definition get_valve_styles :: "string \<Rightarrow> string list" where
  "get_valve_styles valve_type =
     (case subscript VALVE_COEFFICIENTS valve_type of
        Inl KeyError \<Rightarrow> [''Default Style'']
      | Inr styles \<Rightarrow> map fst styles)"

definition get_rated_cv :: "int \<Rightarrow> int" where
  "get_rated_cv valve_size =
     (case map_of VALVE_RATED_CVS valve_size of Some c \<Rightarrow> c | None \<Rightarrow> 50)"

section \<open>app.py, step 3: the rangeability analysis\<close>

text \<open>
  The status string \<open>f"Acceptable ({opening_percent:.1f}% open)"\<close> is kept as the
  constructor \<open>Acceptable\<close> with the opening percentage, before formatting.
\<close>

datatype rangeability_status = Valve_Oversized | Valve_Undersized | Acceptable real

record rangeability_result =
  inherent_rangeability :: int
  rated_cv :: int
  min_controllable_cv :: real
  rangeability_status :: rangeability_status

text \<open>
  The body of the inner \<open>try\<close> of step 3 (the block under "Rangeability Analysis"), as a
  function of the calculated Cv and the valve selection. \<open>rated_cv / inherent_rangeability\<close>
  divides two Python ints: true division, \<open>ZeroDivisionError\<close> on a zero divisor.
\<close>

definition rangeability_analysis ::
  "real \<Rightarrow> int \<Rightarrow> string \<Rightarrow> string \<Rightarrow> error + rangeability_result" where
  "rangeability_analysis calculated_cv valve_size valve_type valve_style =
     (let valve_specifics = get_valve_data valve_type valve_style;
          inherent_rangeability = Rangeability valve_specifics;
          rated_cv = get_rated_cv valve_size
      in if inherent_rangeability = 0 then Inl ZeroDivisionError
         else
           let min_cv = real_of_int rated_cv / real_of_int inherent_rangeability;
               status =
                 (if calculated_cv < min_cv then Valve_Oversized
                  else if calculated_cv > real_of_int rated_cv then Valve_Undersized
                  else Acceptable ((calculated_cv / real_of_int rated_cv) * 100))
           in Inr \<lparr>inherent_rangeability = inherent_rangeability, rated_cv = rated_cv,
                   min_controllable_cv = min_cv, rangeability_status = status\<rparr>)"

text \<open>The keys of the coefficient table, as (valve type, valve style) pairs.\<close>

definition coefficient_keys :: "(string \<times> string) set" where
  "coefficient_keys =
     set (concat (map (\<lambda>(t, styles). map (\<lambda>(s, e). (t, s)) styles) VALVE_COEFFICIENTS))"


section \<open>Float operations\<close>

text \<open>
  IEEE arithmetic on the special values, as numpy applies it to \<open>np.float64\<close> (warnings,
  never exceptions). Signed zeros are not distinguished.
\<close>

fun fadd :: "npfloat \<Rightarrow> npfloat \<Rightarrow> npfloat" where
  "fadd (Fin a) (Fin b) = Fin (a + b)"
| "fadd NaN _ = NaN"
| "fadd _ NaN = NaN"
| "fadd PInf NInf = NaN"
| "fadd NInf PInf = NaN"
| "fadd PInf _ = PInf"
| "fadd _ PInf = PInf"
| "fadd NInf _ = NInf"
| "fadd _ NInf = NInf"

fun fmul :: "npfloat \<Rightarrow> npfloat \<Rightarrow> npfloat" where
  "fmul (Fin a) (Fin b) = Fin (a * b)"
| "fmul NaN _ = NaN"
| "fmul _ NaN = NaN"
| "fmul (Fin a) PInf = (if 0 < a then PInf else if a < 0 then NInf else NaN)"
| "fmul (Fin a) NInf = (if 0 < a then NInf else if a < 0 then PInf else NaN)"
| "fmul PInf (Fin b) = (if 0 < b then PInf else if b < 0 then NInf else NaN)"
| "fmul NInf (Fin b) = (if 0 < b then NInf else if b < 0 then PInf else NaN)"
| "fmul PInf PInf = PInf"
| "fmul PInf NInf = NInf"
| "fmul NInf PInf = NInf"
| "fmul NInf NInf = PInf"

text \<open>A Python float divided by an \<open>np.float64\<close>: numpy's division, which does not raise.\<close>

fun fdiv :: "real \<Rightarrow> npfloat \<Rightarrow> npfloat" where
  "fdiv a (Fin b) =
     (if b \<noteq> 0 then Fin (a / b)
      else if 0 < a then PInf else if a < 0 then NInf else NaN)"
| "fdiv a NaN = NaN"
| "fdiv a PInf = Fin 0"
| "fdiv a NInf = Fin 0"

text \<open>Comparisons: every comparison with NaN is false.\<close>

fun flt :: "npfloat \<Rightarrow> npfloat \<Rightarrow> bool" where
  "flt (Fin a) (Fin b) = (a < b)"
| "flt NInf (Fin b) = True"
| "flt NInf PInf = True"
| "flt (Fin a) PInf = True"
| "flt _ _ = False"

fun feq :: "npfloat \<Rightarrow> npfloat \<Rightarrow> bool" where
  "feq (Fin a) (Fin b) = (a = b)"
| "feq PInf PInf = True"
| "feq NInf NInf = True"
| "feq _ _ = False"

text \<open>
  Python's built-in \<open>min(a, b)\<close> and \<open>max(a, b)\<close>: the first argument is kept unless
  the second compares strictly smaller (greater).
\<close>

definition py_min :: "npfloat \<Rightarrow> npfloat \<Rightarrow> npfloat" where
  "py_min a b = (if flt b a then b else a)"

definition py_max :: "npfloat \<Rightarrow> npfloat \<Rightarrow> npfloat" where
  "py_max a b = (if flt a b then b else a)"

definition np_log10 :: "npfloat \<Rightarrow> npfloat" where
  "np_log10 a =
     (case a of
        Fin x \<Rightarrow> (if 0 < x then Fin (log 10 x) else if x = 0 then NInf else NaN)
      | PInf \<Rightarrow> PInf
      | NInf \<Rightarrow> NaN
      | NaN \<Rightarrow> NaN)"

definition np_sqrt :: "real \<Rightarrow> npfloat" where
  "np_sqrt x = (if 0 \<le> x then Fin (sqrt x) else NaN)"

text \<open>
  Python's \<open>x ** 0.5\<close> on a float: the square root for \<open>x \<ge> 0\<close>, and for a negative
  base a complex number, idealised as the purely imaginary root.
\<close>

definition py_pow_half :: "real \<Rightarrow> pynum" where
  "py_pow_half x = (if 0 \<le> x then PyFloat (sqrt x) else PyComplex (Complex 0 (sqrt (- x))))"

definition py_mul :: "real \<Rightarrow> pynum \<Rightarrow> pynum" where
  "py_mul a b = (case b of PyFloat r \<Rightarrow> PyFloat (a * r) | PyComplex c \<Rightarrow> PyComplex (of_real a * c))"

section \<open>The input dictionary and the result dictionaries\<close>

text \<open>
  \<open>st.session_state.input_data\<close>, with the keys the calculators read. \<open>fl\<close> and \<open>kc\<close>
  are read with \<open>data.get\<close> and may be absent. The numbers are Python floats.
\<close>

record input_data =
  fluid_type :: string
  p1 :: real
  p2 :: real
  t1 :: real
  flow_rate :: real
  rho :: real
  pv :: real
  pc :: real
  mw :: real
  z :: real
  k :: real
  unit_system :: string
  valve_type :: string
  valve_style :: string
  fl :: "real option"
  kc :: "real option"

record 'n sizing_result =
  cv :: 'n

record liquid_result = "pynum sizing_result" +
  is_flashing :: bool
  cavitation_index :: real
  cavitation_status :: string
  trim_recommendation :: string
  dp_sizing :: real

record gas_result = "npfloat sizing_result" +
  is_choked :: bool
  expansion_factor_y :: real
  pressure_drop_ratio_x :: real
  choked_pressure_drop_ratio :: real

text \<open>
  The \<open>results\<close> argument of \<open>predict_noise\<close>: \<open>results['cv']\<close>, and the two keys it
  reads with \<open>results.get\<close>, \<open>None\<close> when absent.
\<close>

record results = "npfloat sizing_result" +
  get_cavitation_status :: "string option"
  get_is_flashing :: "bool option"

record noise_result =
  total_noise_dba :: npfloat
  noise_recommendation :: string

section \<open>calculations/liquid\_sizing.py\<close>

text \<open>The unit conversions and the specific gravity at the head of \<open>calculate_liquid_cv\<close>.\<close>

definition liquid_Gf :: "input_data \<Rightarrow> real" where
  "liquid_Gf data = (if unit_system data = ''Metric'' then rho data / 1000 else rho data)"

definition liquid_dp :: "input_data \<Rightarrow> real" where
  "liquid_dp data =
     convert_pressure (p1 data) (unit_system data) ''psi''
       - convert_pressure (p2 data) (unit_system data) ''psi''"

text \<open>
  \<open>ff\<close> and \<open>dp_allowable\<close>, for \<open>pc \<noteq> 0\<close> and \<open>pv / pc \<ge> 0\<close> (otherwise the source
  raises, see \<open>calculate_liquid_cv\<close>).
\<close>

definition liquid_ff :: "input_data \<Rightarrow> real" where
  "liquid_ff data =
     0.96 - 0.28 * sqrt (convert_pressure (pv data) (unit_system data) ''psi''
                          / convert_pressure (pc data) (unit_system data) ''psi'')"

definition liquid_dp_allowable :: "input_data \<Rightarrow> real" where
  "liquid_dp_allowable data =
     (let fl = (case fl data of Some v \<Rightarrow> v | None \<Rightarrow> 0.9)
      in (fl ^ 2) * (convert_pressure (p1 data) (unit_system data) ''psi''
                      - liquid_ff data * convert_pressure (pv data) (unit_system data) ''psi''))"

definition liquid_dp_sizing :: "input_data \<Rightarrow> real" where
  "liquid_dp_sizing data = min (liquid_dp data) (liquid_dp_allowable data)"

definition calculate_liquid_cv :: "input_data \<Rightarrow> error + liquid_result" where
  "calculate_liquid_cv data =
     (let p1 = convert_pressure (p1 data) (unit_system data) ''psi'';
          p2 = convert_pressure (p2 data) (unit_system data) ''psi'';
          pv = convert_pressure (pv data) (unit_system data) ''psi'';
          pc = convert_pressure (pc data) (unit_system data) ''psi'';
          flow_rate = convert_flow_liquid (flow_rate data) (unit_system data) ''gpm'';
          Gf = liquid_Gf data;
          kc = (case kc data of Some v \<Rightarrow> v | None \<Rightarrow> 0.7)
      in if pc = 0 then Inl ZeroDivisionError
         else if pv / pc < 0 then Inl TypeError
         else
           let dp_sizing = liquid_dp_sizing data
           in if dp_sizing \<le> 0
              then Inl (ValueError
                ''Sizing pressure drop (dP) must be positive. Check inlet/outlet pressures.'')
              else
                let cv = py_mul flow_rate (py_pow_half (Gf / dp_sizing));
                    is_flashing = (p2 < pv)
                in if p1 - p2 = 0 then Inl ZeroDivisionError
                   else
                     let sigma = (p1 - pv) / (p1 - p2);
                         cavitation_index = sigma
                     in if is_flashing then
                          Inr \<lparr>cv = cv, is_flashing = is_flashing,
                               cavitation_index = cavitation_index,
                               cavitation_status = ''Flashing Occurs'',
                               trim_recommendation = ''Flashing service requires hardened trim materials (e.g., Stellite) and potentially an expanded outlet.'',
                               dp_sizing = dp_sizing\<rparr>
                        else if kc = 0 then Inl ZeroDivisionError
                        else if cavitation_index < 1 / kc then
                          Inr \<lparr>cv = cv, is_flashing = is_flashing,
                               cavitation_index = cavitation_index,
                               cavitation_status = ''Cavitation Likely'',
                               trim_recommendation = ''High cavitation risk. Recommend using anti-cavitation trim or a multi-stage valve design.'',
                               dp_sizing = dp_sizing\<rparr>
                        else
                          Inr \<lparr>cv = cv, is_flashing = is_flashing,
                               cavitation_index = cavitation_index,
                               cavitation_status = ''No Significant Cavitation'',
                               trim_recommendation = ''Standard trim is likely acceptable, but monitor for high pressure drop scenarios.'',
                               dp_sizing = dp_sizing\<rparr>)"

section \<open>calculations/gas\_sizing.py\<close>

text \<open>
  The four conversions at the head of \<open>calculate_gas_cv\<close>, with the unit tags the source
  passes: \<open>(p1_abs, p2_abs, t1_abs, flow_rate_scfh)\<close>.
\<close>

definition gas_working_units :: "input_data \<Rightarrow> real \<times> real \<times> real \<times> real" where
  "gas_working_units data =
     (convert_pressure (p1 data) (unit_system data) ''psia'',
      convert_pressure (p2 data) (unit_system data) ''psia'',
      convert_temperature (t1 data) (unit_system data) ''R'',
      convert_flow_gas (flow_rate data) (unit_system data) ''scfh'')"

text \<open>The choked-flow branch: \<open>(x_sizing, is_choked)\<close> from \<open>x\<close> and \<open>x_choked\<close>.\<close>

definition choked_flow_condition :: "real \<Rightarrow> real \<Rightarrow> real \<times> bool" where
  "choked_flow_condition x x_choked =
     (if x \<ge> x_choked then (x_choked, True) else (x, False))"

definition calculate_gas_cv :: "input_data \<Rightarrow> error + gas_result" where
  "calculate_gas_cv data =
     (case gas_working_units data of (p1_abs, p2_abs, t1_abs, flow_rate_scfh) \<Rightarrow>
        let mw = mw data;
            k = k data;
            z = z data;
            valve_specifics = get_valve_data (valve_type data) (valve_style data);
            xt = Xt valve_specifics;
            fk = k / 1.40
        in if p1_abs = 0 then Inl ZeroDivisionError
           else
             let x = (p1_abs - p2_abs) / p1_abs;
                 x_choked = xt * fk
             in let x_sizing = fst (choked_flow_condition x x_choked);
                    is_choked = snd (choked_flow_condition x x_choked)
                in
                  if 3 * fk * xt = 0 then Inl ZeroDivisionError
                  else
                    let y = 1 - (x_sizing / (3 * fk * xt))
                    in if mw * t1_abs * z = 0 then Inl ZeroDivisionError
                       else
                         let denominator =
                               fmul (Fin (1360 * y * p1_abs)) (np_sqrt (x_sizing / (mw * t1_abs * z)))
                         in if feq denominator (Fin 0)
                            then Inl (ValueError
                              ''Calculation error: denominator is zero. Check inputs.'')
                            else
                              Inr \<lparr>cv = fdiv flow_rate_scfh denominator,
                                   is_choked = is_choked,
                                   expansion_factor_y = y,
                                   pressure_drop_ratio_x = x,
                                   choked_pressure_drop_ratio = x_choked\<rparr>)"

section \<open>calculations/noise\_prediction.py\<close>

text \<open>
  \<open>base_noise + transmission_loss + pipe_correction\<close>, before the clamp. The only
  exception is the division \<open>dp / p1\<close> of two Python floats in the gas branch.
\<close>

definition transmission_loss :: "string \<Rightarrow> real" where
  "transmission_loss vtype =
     (if vtype = ''Globe'' then -5
      else if vtype = ''Ball (Segmented)'' then -10
      else if vtype = ''Butterfly'' then -15
      else 0)"

definition base_noise :: "input_data \<Rightarrow> results \<Rightarrow> error + npfloat" where
  "base_noise inputs results =
     (let p1 = p1 inputs;
          p2 = p2 inputs;
          dp = p1 - p2;
          cv = cv results
      in if fluid_type inputs = ''Liquid'' then
           (if get_cavitation_status results = Some ''Cavitation Likely''
            then Inr (fadd (Fin 80) (fmul (Fin 10) (np_log10 (fmul (Fin dp) cv))))
            else if get_is_flashing results = Some True
            then Inr (fadd (Fin 85) (fmul (Fin 10) (np_log10 (fmul (Fin dp) cv))))
            else Inr (fadd (Fin 60) (fmul (Fin 10) (np_log10 (fmul (Fin dp) cv)))))
         else
           if p1 = 0 then Inl ZeroDivisionError
           else
             let mach_velocity_simplified = 0.1 + (dp / p1) * 0.8
             in Inr (fadd (fadd (Fin 70)
                       (fmul (Fin 20) (np_log10 (Fin (mach_velocity_simplified * 1000)))))
                       (fmul (Fin 10) (np_log10 cv))))"

definition raw_total_noise :: "input_data \<Rightarrow> results \<Rightarrow> error + npfloat" where
  "raw_total_noise inputs results =
     (case base_noise inputs results of
        Inl e \<Rightarrow> Inl e
      | Inr base \<Rightarrow>
          let pipe_correction = -5
          in Inr (fadd (fadd base (Fin (transmission_loss (valve_type inputs))))
                    (Fin pipe_correction)))"

definition predict_noise :: "input_data \<Rightarrow> results \<Rightarrow> error + noise_result" where
  "predict_noise inputs results =
     (case raw_total_noise inputs results of
        Inl e \<Rightarrow> Inl e
      | Inr raw_total \<Rightarrow>
          let total_noise_dba = py_max (Fin 50) (py_min (Fin 120) raw_total)
          in if flt (Fin 110) total_noise_dba then
               Inr \<lparr>total_noise_dba = total_noise_dba,
                    noise_recommendation = ''Extreme noise level. A specialized low-noise, multi-stage valve and path treatment (insulation, heavy-wall pipe) are essential.''\<rparr>
             else if flt (Fin 85) total_noise_dba then
               Inr \<lparr>total_noise_dba = total_noise_dba,
                    noise_recommendation = ''High noise level. Consider a low-noise trim package. Source treatment (thicker pipe) or path treatment (acoustic insulation) may be required.''\<rparr>
             else
               Inr \<lparr>total_noise_dba = total_noise_dba,
                    noise_recommendation = ''Standard trim is acceptable from a noise perspective.''\<rparr>)"

section \<open>app.py: the default inputs of steps 1 and 2\<close>

text \<open>
  The initial \<open>step1_data\<close> and \<open>step2_data\<close> of the wizard, under the initial unit
  system \<open>Metric\<close>: the first Globe style and its coefficients.
\<close>

definition default_input :: input_data where
  "default_input =
     \<lparr>fluid_type = ''Liquid'', p1 = 10.0, p2 = 5.0, t1 = 25.0, flow_rate = 100.0,
      rho = 1000.0, pv = 0.03, pc = 221.0, mw = 28.97, z = 1.0, k = 1.4,
      unit_system = ''Metric'', valve_type = ''Globe'',
      valve_style = ''Standard, Cage-Guided'', fl = Some 0.9, kc = Some 0.7\<rparr>"

text \<open>Gas inputs built on the defaults: the default gas case, a pressure pair at the choked
  boundary (\<open>x = 0.75 = Xt * Fk\<close>), and a sub-zero inlet temperature.\<close>

definition default_gas_input :: input_data where
  "default_gas_input = default_input\<lparr>fluid_type := ''Gas/Vapor''\<rparr>"

definition boundary_gas_input :: input_data where
  "boundary_gas_input = default_input\<lparr>fluid_type := ''Gas/Vapor'', p1 := 4, p2 := 1\<rparr>"



text \<open>The same input with the default \<open>Kc\<close>, for which the square roots are rational.\<close>

definition zero_pv_input :: input_data where
  "zero_pv_input = default_input\<lparr>pv := 0\<rparr>"


text \<open>Sizing results with a zero and with a negative Cv, and no liquid keys.\<close>

definition zero_cv_results :: results where
  "zero_cv_results = \<lparr>cv = Fin 0, get_cavitation_status = None, get_is_flashing = None\<rparr>"


text \<open>Sizing results with Cv 2: at the default pressures \<open>dp * cv = 10\<close>.\<close>

definition two_cv_results :: results where
  "two_cv_results = \<lparr>cv = Fin 2, get_cavitation_status = None, get_is_flashing = None\<rparr>"

lemma get_units_Metric:
  "get_units ''Metric'' = \<lparr>pressure = ''bar'', temperature = deg_C, flow_liquid = m3_per_hr,
        flow_gas = Nm3_per_hr, density = kg_per_m3, viscosity = ''cP'', force = ''N'',
        torque = ''Nm''\<rparr>"
  by (simp add: get_units_def UNITS_def)

lemma get_units_Imperial:
  "get_units ''Imperial'' = \<lparr>pressure = ''psi'', temperature = deg_F, flow_liquid = ''gpm'',
        flow_gas = ''scfh'', density = ''SG'', viscosity = ''cP'', force = ''lbf'',
        torque = ''ft-lbf''\<rparr>"
  by (simp add: get_units_def UNITS_def)

lemma unit_name_simps:
  "deg_F \<noteq> deg_C" "m3_per_hr \<noteq> ''gpm''" "kg_per_m3 \<noteq> ''SG''" "Nm3_per_hr \<noteq> ''scfh''"
  "deg_C \<noteq> deg_F" "''gpm'' \<noteq> m3_per_hr" "''SG'' \<noteq> kg_per_m3" "''scfh'' \<noteq> Nm3_per_hr"
  by (simp_all add: deg_F_def deg_C_def m3_per_hr_def kg_per_m3_def Nm3_per_hr_def)

text \<open>
  C8. Converting a value from a unit system to that system's own unit (the unit
  \<open>get_units\<close> names for the quantity) returns the value unchanged, for each of the five
  conversion functions and both systems; and with a \<open>from_system\<close> that is neither
  \<open>Metric\<close> nor \<open>Imperial\<close> every conversion returns the value unchanged, whatever the
  target unit, instead of raising.
\<close>

theorem convert_native_and_unknown_identity:
  "(\<forall>s\<in>{''Metric'', ''Imperial''}.
       convert_pressure v s (pressure (get_units s)) = v
     \<and> convert_flow_liquid v s (flow_liquid (get_units s)) = v
     \<and> convert_density v s (density (get_units s)) = v
     \<and> convert_temperature v s (temperature (get_units s)) = v
     \<and> convert_flow_gas v s (flow_gas (get_units s)) = v)
   \<and> (\<forall>s u. s \<noteq> ''Metric'' \<and> s \<noteq> ''Imperial'' \<longrightarrow>
       convert_pressure v s u = v
     \<and> convert_flow_liquid v s u = v
     \<and> convert_density v s u = v
     \<and> convert_temperature v s u = v
     \<and> convert_flow_gas v s u = v)"
  by (simp add: get_units_Metric get_units_Imperial unit_name_simps
      convert_pressure_def convert_flow_liquid_def convert_density_def
      convert_temperature_def convert_flow_gas_def)

theorem convert_native_and_unknown_identity_witness:
  "convert_pressure 10 ''Metric'' ''bar'' = 10
   \<and> convert_temperature 77 ''Imperial'' deg_F = 77
   \<and> convert_flow_gas 1000 ''SI'' ''scfh'' = 1000
   \<and> convert_pressure 10 ''metric'' ''psi'' = 10"
  using convert_native_and_unknown_identity [of 10]
    convert_native_and_unknown_identity [of 77]
    convert_native_and_unknown_identity [of 1000]
  by (simp add: get_units_Metric get_units_Imperial)

lemma subscript_missing: "key \<notin> fst ` set d \<Longrightarrow> subscript d key = Inl KeyError"
  using map_of_eq_None_iff [of d key] by (simp add: subscript_def)

lemma subscript_found: "subscript d key = Inr v \<Longrightarrow> (key, v) \<in> set d"
  by (auto simp: subscript_def split: option.splits dest: map_of_SomeD)

lemma coefficient_keysI:
  "(t, styles) \<in> set VALVE_COEFFICIENTS \<Longrightarrow> s \<in> fst ` set styles \<Longrightarrow> (t, s) \<in> coefficient_keys"
  unfolding coefficient_keys_def by force

lemma get_valve_data_default:
  assumes "(t, s) \<notin> coefficient_keys"
  shows "get_valve_data t s = default_entry"
proof (cases "subscript VALVE_COEFFICIENTS t")
  case (Inl e)
  then show ?thesis by (cases e) (simp add: get_valve_data_def)
next
  case (Inr styles)
  then have "(t, styles) \<in> set VALVE_COEFFICIENTS" by (rule subscript_found)
  with assms have "s \<notin> fst ` set styles" using coefficient_keysI by blast
  then have "subscript styles s = Inl KeyError" by (rule subscript_missing)
  with Inr show ?thesis by (simp add: get_valve_data_def)
qed

lemma get_valve_data_cases:
  "get_valve_data t s = default_entry
   \<or> (\<exists>styles. (t, styles) \<in> set VALVE_COEFFICIENTS \<and> (s, get_valve_data t s) \<in> set styles)"
proof (cases "subscript VALVE_COEFFICIENTS t")
  case (Inl e)
  then show ?thesis by (cases e) (simp add: get_valve_data_def)
next
  case outer: (Inr styles)
  show ?thesis
  proof (cases "subscript styles s")
    case (Inl e)
    with outer show ?thesis by (cases e) (simp add: get_valve_data_def)
  next
    case (Inr e)
    with outer have "get_valve_data t s = e" by (simp add: get_valve_data_def)
    with outer Inr show ?thesis using subscript_found by metis
  qed
qed

lemma Rangeability_ge: "20 \<le> Rangeability (get_valve_data t s)"
  using get_valve_data_cases [of t s]
  by (auto simp: default_entry_def VALVE_COEFFICIENTS_def)

lemma Xt_bounds: "0.3 \<le> Xt (get_valve_data t s) \<and> Xt (get_valve_data t s) \<le> 0.85"
  using get_valve_data_cases [of t s]
  by (auto simp: default_entry_def VALVE_COEFFICIENTS_def)

lemma get_rated_cv_ge: "12 \<le> get_rated_cv n"
proof (cases "map_of VALVE_RATED_CVS n")
  case None
  then show ?thesis by (simp add: get_rated_cv_def)
next
  case (Some c)
  then have "(n, c) \<in> set VALVE_RATED_CVS" by (rule map_of_SomeD)
  then have "12 \<le> c" by (auto simp: VALVE_RATED_CVS_def)
  with Some show ?thesis by (simp add: get_rated_cv_def)
qed

lemma min_cv_le_rated:
  "real_of_int (get_rated_cv n) / real_of_int (Rangeability (get_valve_data t s))
     \<le> real_of_int (get_rated_cv n)"
proof -
  have r: "1 \<le> real_of_int (Rangeability (get_valve_data t s))"
    using Rangeability_ge [of t s] by linarith
  have c: "0 \<le> real_of_int (get_rated_cv n)"
    using get_rated_cv_ge [of n] by linarith
  from r have "real_of_int (get_rated_cv n) / real_of_int (Rangeability (get_valve_data t s))
      \<le> real_of_int (get_rated_cv n) / 1"
    using c by (intro divide_left_mono) simp_all
  then show ?thesis by simp
qed

text \<open>
  C7. The three lookups are total and fall back instead of failing: a (valve type, valve
  style) pair that is not a key of the coefficient table gives the default entry, whose
  coefficients are FL 0.9, Kc 0.7, Xt 0.75, Rangeability 30; a valve type that is not in
  the table gives the single placeholder style; a nominal size that is not in the rated-Cv
  table, such as 5, gives 50, and size 2 gives 50 from the table.
\<close>

theorem lookups_fall_back:
  "(\<forall>t s. (t, s) \<notin> coefficient_keys \<longrightarrow> get_valve_data t s = default_entry)
   \<and> FL default_entry = 0.9 \<and> Kc default_entry = 0.7 \<and> Xt default_entry = 0.75
   \<and> Rangeability default_entry = 30
   \<and> (\<forall>t. t \<notin> fst ` set VALVE_COEFFICIENTS \<longrightarrow> get_valve_styles t = [''Default Style''])
   \<and> (\<forall>n. n \<notin> fst ` set VALVE_RATED_CVS \<longrightarrow> get_rated_cv n = 50)
   \<and> 5 \<notin> fst ` set VALVE_RATED_CVS \<and> get_rated_cv 5 = 50
   \<and> (2, 50) \<in> set VALVE_RATED_CVS \<and> get_rated_cv 2 = 50"
proof -
  have a: "\<forall>t s. (t, s) \<notin> coefficient_keys \<longrightarrow> get_valve_data t s = default_entry"
    by (simp add: get_valve_data_default)
  have b: "FL default_entry = 0.9 \<and> Kc default_entry = 0.7 \<and> Xt default_entry = 0.75
    \<and> Rangeability default_entry = 30"
    by (simp add: default_entry_def)
  have c: "\<forall>t. t \<notin> fst ` set VALVE_COEFFICIENTS \<longrightarrow> get_valve_styles t = [''Default Style'']"
    by (simp add: get_valve_styles_def subscript_missing)
  have d: "\<forall>n. n \<notin> fst ` set VALVE_RATED_CVS \<longrightarrow> get_rated_cv n = 50"
  proof (intro allI impI)
    fix n :: int
    assume "n \<notin> fst ` set VALVE_RATED_CVS"
    then have "map_of VALVE_RATED_CVS n = None" by (simp add: map_of_eq_None_iff)
    then show "get_rated_cv n = 50" by (simp add: get_rated_cv_def)
  qed
  have e: "5 \<notin> fst ` set VALVE_RATED_CVS \<and> get_rated_cv 5 = 50"
    by (simp add: get_rated_cv_def VALVE_RATED_CVS_def)
  have f: "(2, 50) \<in> set VALVE_RATED_CVS \<and> get_rated_cv 2 = 50"
    by (simp add: get_rated_cv_def VALVE_RATED_CVS_def)
  from a b c d e f show ?thesis by blast
qed

theorem lookups_fall_back_witness:
  "(''Gate'', ''Wedge'') \<notin> coefficient_keys
   \<and> get_valve_data ''Gate'' ''Wedge'' = default_entry
   \<and> (''Globe'', ''Wedge'') \<notin> coefficient_keys
   \<and> get_valve_data ''Globe'' ''Wedge'' = default_entry
   \<and> ''Gate'' \<notin> fst ` set VALVE_COEFFICIENTS
   \<and> get_valve_styles ''Gate'' = [''Default Style'']
   \<and> 5 \<notin> fst ` set VALVE_RATED_CVS \<and> get_rated_cv 5 = 50"
proof -
  have k1: "(''Gate'', ''Wedge'') \<notin> coefficient_keys"
    by (simp add: coefficient_keys_def VALVE_COEFFICIENTS_def)
  have k2: "(''Globe'', ''Wedge'') \<notin> coefficient_keys"
    by (simp add: coefficient_keys_def VALVE_COEFFICIENTS_def)
  have k3: "''Gate'' \<notin> fst ` set VALVE_COEFFICIENTS"
    by (simp add: VALVE_COEFFICIENTS_def)
  from k1 k2 k3 lookups_fall_back show ?thesis by blast
qed

lemma rr_eq:
  "inherent_rangeability r = a \<Longrightarrow> rated_cv r = b \<Longrightarrow> min_controllable_cv r = c
   \<Longrightarrow> rangeability_status r = d
   \<Longrightarrow> (r::rangeability_result) = \<lparr>inherent_rangeability = a, rated_cv = b, min_controllable_cv = c,
            rangeability_status = d\<rparr>"
  by (cases r) simp

text \<open>
  C5. For every calculated Cv and every valve selection the rangeability analysis raises
  nothing and reports the looked-up rangeability, the rated Cv and
  \<open>min_controllable_cv = rated_cv / inherent_rangeability\<close>; it classifies
  \<open>cv < min_controllable_cv\<close> as Valve Oversized, \<open>cv > rated_cv\<close> as Valve Undersized, and
  everything else as Acceptable with \<open>opening_percent = cv / rated_cv * 100\<close>. In particular
  \<open>cv = rated_cv\<close> is Acceptable at 100 percent and \<open>cv = min_controllable_cv\<close> is
  Acceptable.
\<close>

theorem rangeability_classification:
  "\<exists>r. rangeability_analysis q n t s = Inr r
     \<and> inherent_rangeability r = Rangeability (get_valve_data t s)
     \<and> rated_cv r = get_rated_cv n
     \<and> min_controllable_cv r = real_of_int (rated_cv r) / real_of_int (inherent_rangeability r)
     \<and> (q < min_controllable_cv r \<longrightarrow> rangeability_status r = Valve_Oversized)
     \<and> (q > real_of_int (rated_cv r) \<longrightarrow> rangeability_status r = Valve_Undersized)
     \<and> (min_controllable_cv r \<le> q \<and> q \<le> real_of_int (rated_cv r) \<longrightarrow>
          rangeability_status r = Acceptable (q / real_of_int (rated_cv r) * 100))
     \<and> (q = real_of_int (rated_cv r) \<longrightarrow> rangeability_status r = Acceptable 100)
     \<and> (q = min_controllable_cv r \<longrightarrow>
          rangeability_status r = Acceptable (q / real_of_int (rated_cv r) * 100))"
proof -
  define R where "R = Rangeability (get_valve_data t s)"
  define c where "c = get_rated_cv n"
  define m where "m = real_of_int c / real_of_int R"
  define st where "st = (if q < m then Valve_Oversized
                  else if q > real_of_int c then Valve_Undersized
                  else Acceptable ((q / real_of_int c) * 100))"
  have R: "R \<noteq> 0"
    using Rangeability_ge [of t s] unfolding R_def by linarith
  have C: "real_of_int c \<noteq> 0"
    using get_rated_cv_ge [of n] unfolding c_def by simp
  have M: "m \<le> real_of_int c"
    unfolding m_def R_def c_def by (rule min_cv_le_rated)
  have eq: "rangeability_analysis q n t s = Inr \<lparr>inherent_rangeability = R, rated_cv = c,
                   min_controllable_cv = m, rangeability_status = st\<rparr>"
    using R unfolding R_def c_def m_def st_def
    by (simp add: rangeability_analysis_def Let_def)
  have s1: "q < m \<longrightarrow> st = Valve_Oversized" by (simp add: st_def)
  have s2: "q > real_of_int c \<longrightarrow> st = Valve_Undersized" using M by (simp add: st_def)
  have s3: "m \<le> q \<and> q \<le> real_of_int c \<longrightarrow> st = Acceptable (q / real_of_int c * 100)"
    by (simp add: st_def)
  have s4: "q = real_of_int c \<longrightarrow> st = Acceptable 100"
    using M C by (simp add: st_def)
  have s5: "q = m \<longrightarrow> st = Acceptable (q / real_of_int c * 100)"
    using M by (simp add: st_def)
  show ?thesis
    unfolding eq using s1 s2 s3 s4 s5
    by (intro exI [of _ "\<lparr>inherent_rangeability = R, rated_cv = c,
                   min_controllable_cv = m, rangeability_status = st\<rparr>"]) (simp add: R_def c_def m_def)
qed


theorem rangeability_classification_witness:
  "rangeability_analysis 50 2 ''Globe'' ''Standard, Cage-Guided''
     = Inr \<lparr>inherent_rangeability = 50, rated_cv = 50, min_controllable_cv = 1,
            rangeability_status = Acceptable 100\<rparr>
   \<and> rangeability_analysis (1/2) 2 ''Globe'' ''Standard, Cage-Guided''
     = Inr \<lparr>inherent_rangeability = 50, rated_cv = 50, min_controllable_cv = 1,
            rangeability_status = Valve_Oversized\<rparr>
   \<and> rangeability_analysis 51 2 ''Globe'' ''Standard, Cage-Guided''
     = Inr \<lparr>inherent_rangeability = 50, rated_cv = 50, min_controllable_cv = 1,
            rangeability_status = Valve_Undersized\<rparr>"
proof -
  have g: "Rangeability (get_valve_data ''Globe'' ''Standard, Cage-Guided'') = 50"
    by (simp add: get_valve_data_def subscript_def VALVE_COEFFICIENTS_def)
  have c: "get_rated_cv 2 = 50"
    by (simp add: get_rated_cv_def VALVE_RATED_CVS_def)
  obtain r1 where r1: "rangeability_analysis 50 2 ''Globe'' ''Standard, Cage-Guided'' = Inr r1"
    "inherent_rangeability r1 = 50" "rated_cv r1 = 50" "min_controllable_cv r1 = 1"
    "rangeability_status r1 = Acceptable 100"
    using rangeability_classification [of 50 2 "''Globe''" "''Standard, Cage-Guided''"]
    unfolding g c by (elim exE conjE) simp
  obtain r2 where r2: "rangeability_analysis (1/2) 2 ''Globe'' ''Standard, Cage-Guided'' = Inr r2"
    "inherent_rangeability r2 = 50" "rated_cv r2 = 50" "min_controllable_cv r2 = 1"
    "rangeability_status r2 = Valve_Oversized"
    using rangeability_classification [of "1/2" 2 "''Globe''" "''Standard, Cage-Guided''"]
    unfolding g c by (elim exE conjE) simp
  obtain r3 where r3: "rangeability_analysis 51 2 ''Globe'' ''Standard, Cage-Guided'' = Inr r3"
    "inherent_rangeability r3 = 50" "rated_cv r3 = 50" "min_controllable_cv r3 = 1"
    "rangeability_status r3 = Valve_Undersized"
    using rangeability_classification [of 51 2 "''Globe''" "''Standard, Cage-Guided''"]
    unfolding g c by (elim exE conjE) simp
  show ?thesis
    using r1(1) r2(1) r3(1) rr_eq [OF r1(2-5)] rr_eq [OF r2(2-5)] rr_eq [OF r3(2-5)] by simp
qed


lemma gas_working_units_raw:
  "gas_working_units d =
     (p1 d, p2 d, t1 d, convert_flow_gas (flow_rate d) (unit_system d) ''scfh'')"
  by (simp add: gas_working_units_def convert_pressure_def convert_temperature_def
      deg_F_def deg_C_def)

text \<open>
  C1. For a Metric input \<open>calculate_gas_cv\<close> is to feed the formula with \<open>p1\<close> and
  \<open>p2\<close> in psi, \<open>t1\<close> in Rankine and the flow in scfh. The code passes the
  unit tags \<open>psia\<close> and \<open>R\<close>, which no branch of \<open>convert_pressure\<close> and
  \<open>convert_temperature\<close> recognises, so the pressures and the temperature reach the
  formula unchanged: at the default Metric gas input \<open>p1_abs\<close> is 10 (bar), \<open>p2_abs\<close> is 5,
  \<open>t1_abs\<close> is 25 (degrees Celsius), and only the flow is converted; with the tag
  \<open>psi\<close>, as the liquid calculator passes it, the pressure would be \<open>10 * 14.5038\<close>.
\<close>

theorem gas_metric_units_not_converted:
  "unit_system default_gas_input = ''Metric''
   \<and> gas_working_units default_gas_input = (10, 5, 25, 100 * NM3HR_TO_SCFH)
   \<and> fst (gas_working_units default_gas_input) \<noteq> p1 default_gas_input * BAR_TO_PSI
   \<and> convert_pressure (p1 default_gas_input) ''Metric'' ''psi'' = 10 * BAR_TO_PSI"
  by (simp add: gas_working_units_def convert_pressure_def convert_temperature_def
      convert_flow_gas_def deg_F_def deg_C_def default_input_def default_gas_input_def
      BAR_TO_PSI_def)

lemma Xt_default: "Xt (get_valve_data ''Globe'' ''Standard, Cage-Guided'') = 3/4"
  by (simp add: get_valve_data_def subscript_def VALVE_COEFFICIENTS_def)

lemma choked_flow_condition_simps:
  "fst (choked_flow_condition x xc) = (if x \<ge> xc then xc else x)"
  "snd (choked_flow_condition x xc) = (x \<ge> xc)"
  by (simp_all add: choked_flow_condition_def)

text \<open>The body of \<open>calculate_gas_cv\<close> with its local names written out.\<close>

lemma calculate_gas_cv_unfold:
  fixes d :: input_data
  defines "xt \<equiv> Xt (get_valve_data (valve_type d) (valve_style d))"
  defines "fk \<equiv> k d / 1.40"
  defines "x \<equiv> (p1 d - p2 d) / p1 d"
  defines "x_sizing \<equiv> (if x \<ge> xt * fk then xt * fk else x)"
  defines "y \<equiv> 1 - x_sizing / (3 * fk * xt)"
  defines "den \<equiv> fmul (Fin (1360 * y * p1 d)) (np_sqrt (x_sizing / (mw d * t1 d * z d)))"
  shows "calculate_gas_cv d =
     (if p1 d = 0 then Inl ZeroDivisionError
      else if 3 * fk * xt = 0 then Inl ZeroDivisionError
      else if mw d * t1 d * z d = 0 then Inl ZeroDivisionError
      else if feq den (Fin 0)
        then Inl (ValueError ''Calculation error: denominator is zero. Check inputs.'')
      else Inr \<lparr>cv = fdiv (convert_flow_gas (flow_rate d) (unit_system d) ''scfh'') den,
          is_choked = (x \<ge> xt * fk), expansion_factor_y = y,
          pressure_drop_ratio_x = x, choked_pressure_drop_ratio = xt * fk\<rparr>)"
  unfolding den_def y_def x_sizing_def x_def fk_def xt_def
  by (simp only: calculate_gas_cv_def gas_working_units_raw prod.case Let_def
      choked_flow_condition_simps)

lemma expansion_factor_bounds:
  fixes x xc :: real
  assumes "0 < x" "0 < xc"
  defines "xs \<equiv> (if x \<ge> xc then xc else x)"
  shows "2/3 \<le> 1 - xs / (3 * xc)" "1 - xs / (3 * xc) < 1" "0 < xs"
proof -
  have p: "0 < xs" and le: "xs \<le> xc" using assms by (auto simp: xs_def)
  have "xs / (3 * xc) \<le> xc / (3 * xc)"
    using le assms(2) by (intro divide_right_mono) simp_all
  also have "xc / (3 * xc) = 1/3" using assms(2) by simp
  finally show "2/3 \<le> 1 - xs / (3 * xc)" by simp
  have "0 < xs / (3 * xc)" using p assms(2) by simp
  then show "1 - xs / (3 * xc) < 1" by simp
  show "0 < xs" by (rule p)
qed

lemma calculate_gas_cv_returns:
  assumes "p1 d \<noteq> 0" "0 < k d" "0 < mw d * t1 d * z d" "0 < (p1 d - p2 d) / p1 d"
  defines "xt \<equiv> Xt (get_valve_data (valve_type d) (valve_style d))"
  defines "fk \<equiv> k d / 1.40"
  defines "x \<equiv> (p1 d - p2 d) / p1 d"
  defines "x_sizing \<equiv> (if x \<ge> xt * fk then xt * fk else x)"
  defines "y \<equiv> 1 - x_sizing / (3 * fk * xt)"
  defines "den \<equiv> 1360 * y * p1 d * sqrt (x_sizing / (mw d * t1 d * z d))"
  shows "calculate_gas_cv d =
     Inr \<lparr>cv = Fin (convert_flow_gas (flow_rate d) (unit_system d) ''scfh'' / den),
          is_choked = (x \<ge> xt * fk), expansion_factor_y = y,
          pressure_drop_ratio_x = x, choked_pressure_drop_ratio = xt * fk\<rparr>"
    and "2/3 \<le> y" and "y < 1" and "0 < x_sizing" and "p1 d > 0 \<Longrightarrow> 0 < den"
proof -
  have xt: "0 < xt" using Xt_bounds [of "valve_type d" "valve_style d"] by (simp add: xt_def)
  have fk: "0 < fk" using assms(2) by (simp add: fk_def)
  have xc: "0 < xt * fk" using xt fk by simp
  have x: "0 < x" using assms(4) by (simp add: x_def)
  have eq: "3 * fk * xt = 3 * (xt * fk)" by simp
  show y: "2/3 \<le> y" and y1: "y < 1" and xs: "0 < x_sizing"
    using expansion_factor_bounds [OF x xc] unfolding y_def x_sizing_def eq by simp_all
  have q: "0 < x_sizing / (mw d * t1 d * z d)" using xs assms(3) by simp
  define s where "s = sqrt (x_sizing / (mw d * t1 d * z d))"
  have sq: "0 < s" using q by (simp add: s_def)
  have den_s: "den = 1360 * y * p1 d * s" by (simp add: den_def s_def)
  have y0: "y \<noteq> 0" using y by simp
  have den: "den \<noteq> 0" unfolding den_s using y0 assms(1) sq by simp
  show "0 < den" if "p1 d > 0"
    unfolding den_s using y sq that by simp
  have "0 < 3 * fk * xt" using xt fk by simp
  then have nz: "3 * fk * xt \<noteq> 0" by (metis less_irrefl)
  have m: "mw d * t1 d * z d \<noteq> 0" using assms(3) by (metis less_irrefl)
  have sqrt_eq: "np_sqrt (x_sizing / (mw d * t1 d * z d)) = Fin s"
    using q by (simp add: np_sqrt_def s_def)
  have fm: "fmul (Fin (1360 * y * p1 d)) (np_sqrt (x_sizing / (mw d * t1 d * z d))) = Fin den"
    unfolding sqrt_eq den_s by simp
  have nfeq: "\<not> feq (Fin den) (Fin 0)" using den by simp
  have fd: "fdiv (convert_flow_gas (flow_rate d) (unit_system d) ''scfh'') (Fin den)
      = Fin (convert_flow_gas (flow_rate d) (unit_system d) ''scfh'' / den)"
    using den by simp
  show "calculate_gas_cv d =
     Inr \<lparr>cv = Fin (convert_flow_gas (flow_rate d) (unit_system d) ''scfh'' / den),
          is_choked = (x \<ge> xt * fk), expansion_factor_y = y,
          pressure_drop_ratio_x = x, choked_pressure_drop_ratio = xt * fk\<rparr>"
    using assms(1) nz m nfeq
    unfolding calculate_gas_cv_unfold
    unfolding xt_def [symmetric] fk_def [symmetric] x_def [symmetric]
      x_sizing_def [symmetric] y_def [symmetric] fm fd
    by (simp only: if_False)
qed


lemma calculate_gas_cv_Inr:
  assumes "calculate_gas_cv d = Inr r"
  defines "xt \<equiv> Xt (get_valve_data (valve_type d) (valve_style d))"
  defines "fk \<equiv> k d / 1.40"
  defines "x \<equiv> (p1 d - p2 d) / p1 d"
  defines "x_sizing \<equiv> (if x \<ge> xt * fk then xt * fk else x)"
  defines "y \<equiv> 1 - x_sizing / (3 * fk * xt)"
  shows "pressure_drop_ratio_x r = x" "choked_pressure_drop_ratio r = xt * fk"
    "is_choked r = (x \<ge> xt * fk)" "expansion_factor_y r = y"
    "cv r = fdiv (convert_flow_gas (flow_rate d) (unit_system d) ''scfh'')
              (fmul (Fin (1360 * y * p1 d)) (np_sqrt (x_sizing / (mw d * t1 d * z d))))"
  using assms(1)
  unfolding xt_def fk_def x_def x_sizing_def y_def
  by (auto simp: calculate_gas_cv_def gas_working_units_raw Let_def choked_flow_condition_def
      split: if_splits)

text \<open>
  C4. With \<open>x = (p1_abs - p2_abs) / p1_abs\<close> and \<open>x_choked = Xt * Fk\<close>, every result of
  \<open>calculate_gas_cv\<close> reports these two ratios; when \<open>x \<ge> x_choked\<close>, equality
  included, it reports \<open>is_choked\<close> true and the expansion factor and the Cv are computed
  from \<open>x_sizing = x_choked\<close>; when \<open>x < x_choked\<close> it reports \<open>is_choked\<close> false and they
  are computed from \<open>x_sizing = x\<close>. A result is returned whenever \<open>p1_abs \<noteq> 0\<close>,
  \<open>k > 0\<close>, \<open>MW * T1 * Z > 0\<close> and \<open>x > 0\<close>.
\<close>

theorem gas_choked_decision:
  "case gas_working_units d of (p1_abs, p2_abs, t1_abs, flow_rate_scfh) \<Rightarrow>
     let xt = Xt (get_valve_data (valve_type d) (valve_style d));
         fk = k d / 1.40;
         x = (p1_abs - p2_abs) / p1_abs;
         x_choked = xt * fk
     in (\<forall>r. calculate_gas_cv d = Inr r \<longrightarrow>
           pressure_drop_ratio_x r = x \<and> choked_pressure_drop_ratio r = x_choked
           \<and> (x \<ge> x_choked \<longrightarrow>
                is_choked r
                \<and> expansion_factor_y r = 1 - x_choked / (3 * fk * xt)
                \<and> cv r = fdiv flow_rate_scfh
                     (fmul (Fin (1360 * expansion_factor_y r * p1_abs))
                        (np_sqrt (x_choked / (mw d * t1_abs * z d)))))
           \<and> (x < x_choked \<longrightarrow>
                \<not> is_choked r
                \<and> expansion_factor_y r = 1 - x / (3 * fk * xt)
                \<and> cv r = fdiv flow_rate_scfh
                     (fmul (Fin (1360 * expansion_factor_y r * p1_abs))
                        (np_sqrt (x / (mw d * t1_abs * z d))))))
        \<and> (p1_abs \<noteq> 0 \<and> 0 < k d \<and> 0 < mw d * t1_abs * z d \<and> 0 < x
             \<longrightarrow> (\<exists>r. calculate_gas_cv d = Inr r))"
proof -
  have ret: "\<exists>r. calculate_gas_cv d = Inr r"
    if "p1 d \<noteq> 0" "0 < k d" "0 < mw d * t1 d * z d" "0 < (p1 d - p2 d) / p1 d"
    using calculate_gas_cv_returns(1) [OF that] by blast
  have fields: "pressure_drop_ratio_x r = (p1 d - p2 d) / p1 d
      \<and> choked_pressure_drop_ratio r = Xt (get_valve_data (valve_type d) (valve_style d)) * (k d / 1.40)
      \<and> (Xt (get_valve_data (valve_type d) (valve_style d)) * (k d / 1.40) \<le> (p1 d - p2 d) / p1 d \<longrightarrow>
                is_choked r
                \<and> expansion_factor_y r = 1 - Xt (get_valve_data (valve_type d) (valve_style d)) * (k d / 1.40) / (3 * (k d / 1.40) * Xt (get_valve_data (valve_type d) (valve_style d)))
                \<and> cv r = fdiv (convert_flow_gas (flow_rate d) (unit_system d) ''scfh'')
                     (fmul (Fin (1360 * expansion_factor_y r * p1 d))
                        (np_sqrt (Xt (get_valve_data (valve_type d) (valve_style d)) * (k d / 1.40) / (mw d * t1 d * z d)))))
      \<and> ((p1 d - p2 d) / p1 d < Xt (get_valve_data (valve_type d) (valve_style d)) * (k d / 1.40) \<longrightarrow>
                \<not> is_choked r
                \<and> expansion_factor_y r = 1 - (p1 d - p2 d) / p1 d / (3 * (k d / 1.40) * Xt (get_valve_data (valve_type d) (valve_style d)))
                \<and> cv r = fdiv (convert_flow_gas (flow_rate d) (unit_system d) ''scfh'')
                     (fmul (Fin (1360 * expansion_factor_y r * p1 d))
                        (np_sqrt ((p1 d - p2 d) / p1 d / (mw d * t1 d * z d)))))"
    if r: "calculate_gas_cv d = Inr r" for r
    using calculate_gas_cv_Inr [OF r]
    by (simp only: if_True if_False not_le not_less split: if_splits) auto
  show ?thesis
    unfolding gas_working_units_raw prod.case Let_def
    using ret fields by blast
qed


lemma boundary_gas_input_fields:
  "p1 boundary_gas_input = 4" "p2 boundary_gas_input = 1" "t1 boundary_gas_input = 25"
  "k boundary_gas_input = 1.4" "mw boundary_gas_input = 28.97" "z boundary_gas_input = 1"
  "flow_rate boundary_gas_input = 100" "unit_system boundary_gas_input = ''Metric''"
  "Xt (get_valve_data (valve_type boundary_gas_input) (valve_style boundary_gas_input)) = 3/4"
  by (simp_all add: boundary_gas_input_def default_input_def Xt_default)

lemma default_gas_input_fields:
  "p1 default_gas_input = 10" "p2 default_gas_input = 5" "t1 default_gas_input = 25"
  "k default_gas_input = 1.4" "mw default_gas_input = 28.97" "z default_gas_input = 1"
  "flow_rate default_gas_input = 100" "unit_system default_gas_input = ''Metric''"
  "Xt (get_valve_data (valve_type default_gas_input) (valve_style default_gas_input)) = 3/4"
  by (simp_all add: default_gas_input_def default_input_def Xt_default)

theorem gas_choked_decision_witness:
  "(\<exists>r. calculate_gas_cv boundary_gas_input = Inr r
        \<and> pressure_drop_ratio_x r = 3/4 \<and> choked_pressure_drop_ratio r = 3/4
        \<and> is_choked r \<and> expansion_factor_y r = 2/3)
   \<and> (\<exists>r. calculate_gas_cv default_gas_input = Inr r
        \<and> pressure_drop_ratio_x r = 1/2 \<and> choked_pressure_drop_ratio r = 3/4
        \<and> \<not> is_choked r \<and> expansion_factor_y r = 7/9)"
proof -
  note b = gas_choked_decision [of boundary_gas_input,
      unfolded gas_working_units_raw prod.case Let_def boundary_gas_input_fields]
  from b have "\<exists>r. calculate_gas_cv boundary_gas_input = Inr r" by simp
  then obtain r where r: "calculate_gas_cv boundary_gas_input = Inr r" ..
  with b have rb: "pressure_drop_ratio_x r = 3/4 \<and> choked_pressure_drop_ratio r = 3/4
        \<and> is_choked r \<and> expansion_factor_y r = 2/3" by simp
  note g = gas_choked_decision [of default_gas_input,
      unfolded gas_working_units_raw prod.case Let_def default_gas_input_fields]
  from g have "\<exists>r. calculate_gas_cv default_gas_input = Inr r" by simp
  then obtain r' where r': "calculate_gas_cv default_gas_input = Inr r'" ..
  with g have rg: "pressure_drop_ratio_x r' = 1/2 \<and> choked_pressure_drop_ratio r' = 3/4
        \<and> \<not> is_choked r' \<and> expansion_factor_y r' = 7/9" by simp
  from r rb r' rg show ?thesis by blast
qed






lemma convert_pressure_psi:
  "convert_pressure v s ''psi'' = v * (if s = ''Metric'' then BAR_TO_PSI else 1)"
  by (simp add: convert_pressure_def)

lemma psi_factor_pos: "0 < (if s = ''Metric'' then BAR_TO_PSI else 1)"
  by (simp add: BAR_TO_PSI_def)

lemma convert_pressure_psi_zero_iff: "convert_pressure v s ''psi'' = 0 \<longleftrightarrow> v = 0"
  by (simp add: convert_pressure_def BAR_TO_PSI_def)

lemma convert_pressure_psi_ratio:
  "convert_pressure a s ''psi'' / convert_pressure b s ''psi'' = a / b"
  by (simp add: convert_pressure_def BAR_TO_PSI_def)

lemma convert_pressure_psi_less:
  "convert_pressure a s ''psi'' < convert_pressure b s ''psi'' \<longleftrightarrow> a < b"
  by (simp add: convert_pressure_def BAR_TO_PSI_def)

lemma liquid_dp_pos_iff: "0 < liquid_dp d \<longleftrightarrow> p2 d < p1 d"
  by (simp add: liquid_dp_def convert_pressure_psi_less)

lemma calculate_liquid_cv_Inr:
  assumes "calculate_liquid_cv d = Inr r"
  shows "pc d \<noteq> 0" "0 \<le> pv d / pc d" "0 < liquid_dp_sizing d"
    "cv r = py_mul (convert_flow_liquid (flow_rate d) (unit_system d) ''gpm'')
              (py_pow_half (liquid_Gf d / liquid_dp_sizing d))"
    "dp_sizing r = liquid_dp_sizing d"
    "kc d \<noteq> Some 0 \<or> p2 d < pv d"
  using assms
  by (auto simp: calculate_liquid_cv_def Let_def convert_pressure_psi_zero_iff
      convert_pressure_psi_ratio convert_pressure_psi_less not_less
      split: if_splits option.splits)


lemma calculate_liquid_cv_returns:
  assumes "pc d \<noteq> 0" "0 \<le> pv d / pc d" "0 < liquid_dp_sizing d"
    "kc d \<noteq> Some 0 \<or> p2 d < pv d"
  shows "\<exists>r. calculate_liquid_cv d = Inr r"
proof -
  have "liquid_dp_sizing d \<le> liquid_dp d" by (simp add: liquid_dp_sizing_def)
  with assms(3) have "0 < liquid_dp d" by linarith
  then have ne: "convert_pressure (p1 d) (unit_system d) ''psi''
      - convert_pressure (p2 d) (unit_system d) ''psi'' \<noteq> 0"
    by (simp add: liquid_dp_def)
  show ?thesis
    using assms ne
    by (auto simp: calculate_liquid_cv_def Let_def convert_pressure_psi_zero_iff
      convert_pressure_psi_ratio convert_pressure_psi_less not_less
      split: if_splits option.splits)
qed







lemma liquid_flow_rate_update:
  "liquid_Gf (d\<lparr>flow_rate := q\<rparr>) = liquid_Gf d"
  "liquid_dp_sizing (d\<lparr>flow_rate := q\<rparr>) = liquid_dp_sizing d"
  by (simp_all add: liquid_Gf_def liquid_dp_sizing_def liquid_dp_def liquid_dp_allowable_def
      liquid_ff_def)

lemma convert_flow_liquid_gpm:
  "convert_flow_liquid v s ''gpm'' = v * (if s = ''Metric'' then M3HR_TO_GPM else 1)"
  by (simp add: convert_flow_liquid_def unit_name_simps)

lemma gpm_factor_pos: "0 < (if s = ''Metric'' then M3HR_TO_GPM else 1)"
  by (simp add: M3HR_TO_GPM_def)

lemma calculate_liquid_cv_value:
  assumes r: "calculate_liquid_cv (d\<lparr>flow_rate := q\<rparr>) = Inr r" and rho: "0 < rho d"
  defines "f \<equiv> (if unit_system d = ''Metric'' then M3HR_TO_GPM else 1)
                  * sqrt (liquid_Gf d / liquid_dp_sizing d)"
  shows "cv r = PyFloat (q * f)" "0 < f"
proof -
  have dps: "0 < liquid_dp_sizing d"
    using calculate_liquid_cv_Inr(3) [OF r] by (simp add: liquid_flow_rate_update)
  have gf: "0 < liquid_Gf d" using rho by (simp add: liquid_Gf_def)
  have ratio: "0 < liquid_Gf d / liquid_dp_sizing d" using gf dps by simp
  then have "0 < sqrt (liquid_Gf d / liquid_dp_sizing d)" by simp
  then show "0 < f" unfolding f_def using gpm_factor_pos [of "unit_system d"]
    by (intro mult_pos_pos)
  have "py_pow_half (liquid_Gf d / liquid_dp_sizing d)
      = PyFloat (sqrt (liquid_Gf d / liquid_dp_sizing d))"
    using ratio by (simp add: py_pow_half_def)
  then show "cv r = PyFloat (q * f)"
    unfolding calculate_liquid_cv_Inr(4) [OF r] liquid_flow_rate_update f_def
    by (simp add: py_mul_def convert_flow_liquid_gpm)
qed

text \<open>
  C9. For a liquid input with \<open>p1 > p2 > 0\<close>, \<open>dp_allowable > 0\<close>, positive density (hence
  positive specific gravity), \<open>pc > 0\<close> and \<open>pv \<ge> 0\<close>: whenever \<open>calculate_liquid_cv\<close>
  returns at flow rates \<open>q\<close> and \<open>q'\<close>, all other inputs fixed, the two Cv are real
  numbers, the Cv at \<open>q\<close> is strictly positive when \<open>q > 0\<close>, and \<open>q < q'\<close> gives a
  strictly smaller Cv at \<open>q\<close> than at \<open>q'\<close>. It returns at every flow rate when \<open>kc \<noteq> 0\<close>
  or the liquid is flashing.
\<close>

theorem liquid_cv_positive_monotone:
  assumes "p2 d < p1 d" "0 < p2 d" "0 < liquid_dp_allowable d" "0 < rho d"
    and "0 < pc d" "0 \<le> pv d"
  shows "(kc d \<noteq> Some 0 \<or> p2 d < pv d \<longrightarrow>
            (\<forall>q. \<exists>r. calculate_liquid_cv (d\<lparr>flow_rate := q\<rparr>) = Inr r))
     \<and> (\<forall>q q' r r'.
            calculate_liquid_cv (d\<lparr>flow_rate := q\<rparr>) = Inr r
          \<and> calculate_liquid_cv (d\<lparr>flow_rate := q'\<rparr>) = Inr r' \<longrightarrow>
            (\<exists>c c'. cv r = PyFloat c \<and> cv r' = PyFloat c'
                \<and> (0 < q \<longrightarrow> 0 < c) \<and> (q < q' \<longrightarrow> c < c')))"
proof -
  have dps: "0 < liquid_dp_sizing d"
    using assms(1,3) by (simp add: liquid_dp_sizing_def liquid_dp_pos_iff)
  have ret: "\<exists>r. calculate_liquid_cv (d\<lparr>flow_rate := q\<rparr>) = Inr r"
    if "kc d \<noteq> Some 0 \<or> p2 d < pv d" for q
    using that assms(5,6) dps
    by (intro calculate_liquid_cv_returns) (simp_all add: liquid_flow_rate_update)
  have mono: "\<exists>c c'. cv r = PyFloat c \<and> cv r' = PyFloat c'
                \<and> (0 < q \<longrightarrow> 0 < c) \<and> (q < q' \<longrightarrow> c < c')"
    if r: "calculate_liquid_cv (d\<lparr>flow_rate := q\<rparr>) = Inr r"
      and r': "calculate_liquid_cv (d\<lparr>flow_rate := q'\<rparr>) = Inr r'" for q q' r r'
  proof -
    define f where "f = (if unit_system d = ''Metric'' then M3HR_TO_GPM else 1)
                  * sqrt (liquid_Gf d / liquid_dp_sizing d)"
    have c: "cv r = PyFloat (q * f)" and f: "0 < f"
      using calculate_liquid_cv_value [OF r assms(4)] by (simp_all add: f_def)
    have c': "cv r' = PyFloat (q' * f)"
      using calculate_liquid_cv_value [OF r' assms(4)] by (simp add: f_def)
    have "0 < q \<longrightarrow> 0 < q * f" using f by simp
    moreover have "q < q' \<longrightarrow> q * f < q' * f" using f by simp
    ultimately show ?thesis using c c' by blast
  qed
  from ret mono show ?thesis by blast
qed

lemma zero_pv_dp_allowable: "0 < liquid_dp_allowable zero_pv_input"
  by (simp add: liquid_dp_allowable_def liquid_ff_def zero_pv_input_def default_input_def
      convert_pressure_def BAR_TO_PSI_def)

theorem liquid_cv_positive_monotone_witness:
  "p2 zero_pv_input < p1 zero_pv_input \<and> 0 < p2 zero_pv_input
   \<and> 0 < liquid_dp_allowable zero_pv_input \<and> 0 < rho zero_pv_input
   \<and> 0 < pc zero_pv_input \<and> 0 \<le> pv zero_pv_input
   \<and> (\<exists>r r' c c'. calculate_liquid_cv (zero_pv_input\<lparr>flow_rate := 100\<rparr>) = Inr r
         \<and> calculate_liquid_cv (zero_pv_input\<lparr>flow_rate := 200\<rparr>) = Inr r'
         \<and> cv r = PyFloat c \<and> cv r' = PyFloat c' \<and> 0 < c \<and> c < c')"
proof -
  have h: "p2 zero_pv_input < p1 zero_pv_input" "0 < p2 zero_pv_input"
    "0 < liquid_dp_allowable zero_pv_input" "0 < rho zero_pv_input"
    "0 < pc zero_pv_input" "0 \<le> pv zero_pv_input"
    by (simp_all add: zero_pv_dp_allowable) (simp_all add: zero_pv_input_def default_input_def)
  have kc: "kc zero_pv_input \<noteq> Some 0"
    by (simp add: zero_pv_input_def default_input_def)
  note t = liquid_cv_positive_monotone [OF h]
  from t kc obtain r where r: "calculate_liquid_cv (zero_pv_input\<lparr>flow_rate := 100\<rparr>) = Inr r"
    by blast
  from t kc obtain r' where r': "calculate_liquid_cv (zero_pv_input\<lparr>flow_rate := 200\<rparr>) = Inr r'"
    by blast
  from t r r' have "\<exists>c c'. cv r = PyFloat c \<and> cv r' = PyFloat c'
      \<and> ((0::real) < 100 \<longrightarrow> 0 < c) \<and> ((100::real) < 200 \<longrightarrow> c < c')"
    by blast
  then have "\<exists>c c'. cv r = PyFloat c \<and> cv r' = PyFloat c' \<and> 0 < c \<and> c < c'" by simp
  with h r r' show ?thesis by blast
qed

lemma clamp_cases:
  "py_max (Fin 50) (py_min (Fin 120) raw) =
     (case raw of
        Fin x \<Rightarrow> Fin (if x < 50 then 50 else if 120 < x then 120 else x)
      | PInf \<Rightarrow> Fin 120
      | NInf \<Rightarrow> Fin 50
      | NaN \<Rightarrow> Fin 120)"
  by (cases raw) (auto simp: py_max_def py_min_def)

lemma predict_noise_Inr:
  "raw_total_noise i rs = Inr raw \<Longrightarrow>
     \<exists>rec. predict_noise i rs =
       Inr \<lparr>total_noise_dba = py_max (Fin 50) (py_min (Fin 120) raw), noise_recommendation = rec\<rparr>"
  by (simp add: predict_noise_def Let_def)

lemma predict_noise_Inl: "raw_total_noise i rs = Inl e \<Longrightarrow> predict_noise i rs = Inl e"
  by (simp add: predict_noise_def)

lemma raw_total_noise_error:
  "raw_total_noise i rs = Inl e \<longleftrightarrow>
     e = ZeroDivisionError \<and> fluid_type i \<noteq> ''Liquid'' \<and> p1 i = 0"
  by (auto simp: raw_total_noise_def base_noise_def Let_def split: sum.splits if_splits)

lemma raw_total_noise_returns:
  "fluid_type i = ''Liquid'' \<or> p1 i \<noteq> 0 \<Longrightarrow> \<exists>raw. raw_total_noise i rs = Inr raw"
  using raw_total_noise_error [of i rs] by (cases "raw_total_noise i rs") auto

text \<open>
  C6. Whenever \<open>predict_noise\<close> returns, \<open>total_noise_dba\<close> is a finite number in the
  closed interval \<open>[50, 120]\<close>; it is exactly 50 when base noise plus transmission loss
  plus pipe correction is below 50, and exactly 120 when that sum is above 120. It returns
  for every liquid input and for every gas input with \<open>p1 \<noteq> 0\<close>.
\<close>

theorem noise_clamped:
  "(fluid_type i = ''Liquid'' \<or> p1 i \<noteq> 0 \<longrightarrow> (\<exists>res. predict_noise i rs = Inr res))
   \<and> (\<forall>res. predict_noise i rs = Inr res \<longrightarrow>
        (\<exists>raw t. raw_total_noise i rs = Inr raw \<and> total_noise_dba res = Fin t
           \<and> 50 \<le> t \<and> t \<le> 120
           \<and> (flt raw (Fin 50) \<longrightarrow> t = 50)
           \<and> (flt (Fin 120) raw \<longrightarrow> t = 120)))"
proof -
  have ret: "\<exists>res. predict_noise i rs = Inr res" if "fluid_type i = ''Liquid'' \<or> p1 i \<noteq> 0"
  proof -
    from raw_total_noise_returns [OF that] obtain raw where "raw_total_noise i rs = Inr raw" ..
    from predict_noise_Inr [OF this] show ?thesis by blast
  qed
  have rng: "\<exists>raw t. raw_total_noise i rs = Inr raw \<and> total_noise_dba res = Fin t
           \<and> 50 \<le> t \<and> t \<le> 120
           \<and> (flt raw (Fin 50) \<longrightarrow> t = 50)
           \<and> (flt (Fin 120) raw \<longrightarrow> t = 120)"
    if res: "predict_noise i rs = Inr res" for res
  proof (cases "raw_total_noise i rs")
    case (Inl e)
    with res show ?thesis using predict_noise_Inl [of i rs e] by simp
  next
    case (Inr raw)
    with res have t: "total_noise_dba res = py_max (Fin 50) (py_min (Fin 120) raw)"
      using predict_noise_Inr [of i rs raw] by auto
    show ?thesis
      unfolding Inr t clamp_cases by (cases raw) auto
  qed
  from ret rng show ?thesis by blast
qed


lemma raw_total_noise_zero_cv: "raw_total_noise default_input zero_cv_results = Inr NInf"
  by (simp add: raw_total_noise_def base_noise_def default_input_def zero_cv_results_def
      np_log10_def transmission_loss_def Let_def)


theorem noise_clamped_witness:
  "(\<exists>res. predict_noise default_input zero_cv_results = Inr res
        \<and> total_noise_dba res = Fin 50)
   \<and> (\<exists>res t. predict_noise default_input two_cv_results = Inr res
        \<and> total_noise_dba res = Fin t \<and> 50 \<le> t \<and> t \<le> 120)"
proof -
  have liquid: "fluid_type default_input = ''Liquid''" by (simp add: default_input_def)
  note z = noise_clamped [of default_input zero_cv_results]
  from z liquid obtain res where res: "predict_noise default_input zero_cv_results = Inr res"
    by blast
  with z obtain raw t where rt: "raw_total_noise default_input zero_cv_results = Inr raw"
    "total_noise_dba res = Fin t" "flt raw (Fin 50) \<longrightarrow> t = 50" by blast
  from rt(1) have "raw = NInf" by (simp add: raw_total_noise_zero_cv)
  with rt(3) have "t = 50" by simp
  with res rt(2) have a: "\<exists>res. predict_noise default_input zero_cv_results = Inr res
        \<and> total_noise_dba res = Fin 50" by blast
  note w = noise_clamped [of default_input two_cv_results]
  from w liquid obtain res' where res': "predict_noise default_input two_cv_results = Inr res'"
    by blast
  with w have "\<exists>t. total_noise_dba res' = Fin t \<and> 50 \<le> t \<and> t \<le> 120" by blast
  with res' have b: "\<exists>res t. predict_noise default_input two_cv_results = Inr res
        \<and> total_noise_dba res = Fin t \<and> 50 \<le> t \<and> t \<le> 120" by blast
  from a b show ?thesis by blast
qed

lemma fadd_special:
  "a = NInf \<or> a = NaN \<Longrightarrow> fadd a (Fin b) = a"
  "a = NInf \<or> a = NaN \<Longrightarrow> fadd (Fin b) a = a"
  by auto








end
